theory Spec2Isabelle
  imports Complex_Main "HOL-Library.Word" "HOL-Library.Sublist" "HOL-Library.AList"
begin

unbundle bit_operations_syntax

section \<open>Python values shared by the three modules\<close>

text \<open>
  Exceptions of the Python sources are values of one datatype.  The constructors carry the
  name or message that the source (or the interpreter) attaches to them.
\<close>

datatype py_exn =
    KeyError string
  | AttributeError string
  | NameError string
  | UnboundLocalError string
  | IndexError
  | ValueError string
  | IOError string
  | ImportError string
  | PlainException string

text \<open>\<^verbatim>\<open>s.find(sub)\<close>: the index of the first occurrence of \<open>sub\<close> in \<open>s\<close>, or \<open>-1\<close>.\<close>

fun str_find :: "string \<Rightarrow> string \<Rightarrow> int" where
  "str_find sub [] = (if sub = [] then 0 else -1)"
| "str_find sub (c # cs) =
     (if prefix sub (c # cs) then 0
      else (let r = str_find sub cs in if r = -1 then -1 else r + 1))"

text \<open>\<^verbatim>\<open>sub in s\<close> for strings.\<close>

definition str_contains :: "string \<Rightarrow> string \<Rightarrow> bool" where
  "str_contains sub s = (str_find sub s \<noteq> -1)"

section \<open>lib/irData.py: \<^verbatim>\<open>IRInputImage.isCountRate\<close>\<close>

text \<open>
  A FITS header maps keywords to card values; a card value is a string, an integer, a
  logical or a floating-point number.  Only strings have a \<^verbatim>\<open>find\<close> method.
\<close>

datatype card_value = CStr string | CInt int | CBool bool | CFloat real

type_synonym header = "string \<rightharpoonup> card_value"

text \<open>
  \<^verbatim>\<open>
  if self.header.has_key('BUNIT'):
      if self.header['BUINT'].find("/") != -1:
          return True
  else:
      return False
  \<close>
  The result is \<open>Inr (Some b)\<close> for \<^verbatim>\<open>return b\<close>, \<open>Inr None\<close> when the body falls off its
  end (Python's \<^verbatim>\<open>None\<close>), and \<open>Inl e\<close> when \<open>e\<close> is raised.
\<close>

definition isCountRate :: "header \<Rightarrow> py_exn + bool option" where
  "isCountRate hdr =
     (if ''BUNIT'' \<in> dom hdr then
        (case hdr ''BUINT'' of
           None \<Rightarrow> Inl (KeyError ''BUINT'')
         | Some (CStr s) \<Rightarrow> (if str_find ''/'' s \<noteq> -1 then Inr (Some True) else Inr None)
         | Some _ \<Rightarrow> Inl (AttributeError ''find''))
      else Inr (Some False))"

section \<open>lib/buildmask.py: \<^verbatim>\<open>buildMask\<close>\<close>

text \<open>
  A DQ array is a two-dimensional array of integers, stored by rows.  \<^verbatim>\<open>buildMask\<close>
  returns a float array on the \<^verbatim>\<open>bitvalue == None\<close> path and a \<^verbatim>\<open>uint8\<close> array otherwise,
  so an element of the result carries its dtype.
\<close>

datatype npval = Float64 real | UInt8 "8 word"

fun npval_num :: "npval \<Rightarrow> real" where
  "npval_num (Float64 r) = r"
| "npval_num (UInt8 w) = real (unat w)"

text \<open>\<^verbatim>\<open>N.choose(c, (1,0))\<close>: the condition indexes the pair, so \<^verbatim>\<open>False\<close> picks 1.\<close>

definition choose_1_0 :: "bool \<Rightarrow> int" where
  "choose_1_0 c = (if c then 0 else 1)"

text \<open>
  \<^verbatim>\<open>
  if bitvalue == None:
      return (dqarr * 0.0) + 1.0
  _maskarr = N.bitwise_or(dqarr,N.array([bitvalue]))
  return N.choose(N.greater(_maskarr,bitvalue),(1,0)).astype(N.uint8)
  \<close>
\<close>

definition buildMask :: "int list list \<Rightarrow> int option \<Rightarrow> npval list list" where
  "buildMask dqarr bitvalue =
     (case bitvalue of
        None \<Rightarrow> map (map (\<lambda>d. Float64 ((real_of_int d * 0.0) + 1.0))) dqarr
      | Some b \<Rightarrow> map (map (\<lambda>d. UInt8 (word_of_int (choose_1_0 ((d OR b) > b))))) dqarr)"

section \<open>lib/buildmask.py: mask files\<close>

text \<open>
  The mask functions work on files in one directory.  A file is an input image (a list of
  header-data units, each with an extension name, an extension version and an optional
  integer data array), a mask written by this module, or the remains of a write that
  failed half-way.  Text printed by the functions is collected in \<open>mout\<close>.
\<close>

record hdu =
  extname :: string
  extver :: int
  data :: "int list list option"

datatype fitsfile = Image "hdu list" | MaskImage "npval list list" | Incomplete

record mstate =
  mfiles :: "string \<rightharpoonup> fitsfile"
  mout :: "string list"

text \<open>
  How an attempt to write a file ends lies outside the program: it succeeds, fails
  leaving nothing behind, or fails leaving an incomplete file.
\<close>

datatype write_outcome = Written | FailedClean | FailedPartial

text \<open>
  The collaborators from \<^verbatim>\<open>fileutil\<close>, \<^verbatim>\<open>os\<close> and \<^verbatim>\<open>pyfits\<close>, reduced to what the
  mask functions use of them.
\<close>

definition findFile :: "mstate \<Rightarrow> string \<Rightarrow> bool" where
  "findFile st name = (name \<in> dom (mfiles st))"

definition removeFile :: "string \<Rightarrow> mstate \<Rightarrow> mstate" where
  "removeFile name st = st\<lparr>mfiles := (mfiles st)(name := None)\<rparr>"

definition copyFile :: "string \<Rightarrow> string \<Rightarrow> mstate \<Rightarrow> py_exn + mstate" where
  "copyFile src dst st =
     (case mfiles st src of
        None \<Rightarrow> Inl (IOError src)
      | Some c \<Rightarrow> Inr (st\<lparr>mfiles := (mfiles st)(dst \<mapsto> c)\<rparr>))"

definition openImage :: "mstate \<Rightarrow> string \<Rightarrow> py_exn + hdu list" where
  "openImage st name =
     (case mfiles st name of Some (Image hs) \<Rightarrow> Inr hs | _ \<Rightarrow> Inl (IOError name))"

fun findExtname :: "hdu list \<Rightarrow> string \<Rightarrow> int \<Rightarrow> nat option" where
  "findExtname [] en ev = None"
| "findExtname (h # hs) en ev =
     (if extname h = en \<and> extver h = ev then Some 0
      else map_option Suc (findExtname hs en ev))"

definition print_line :: "string \<Rightarrow> mstate \<Rightarrow> mstate" where
  "print_line msg st = st\<lparr>mout := mout st @ [msg]\<rparr>"

text \<open>
  \<^verbatim>\<open>pyfits.open(name,'append')\<close>, \<^verbatim>\<open>append(PrimaryHDU(data=arr))\<close>, \<^verbatim>\<open>close()\<close>.
\<close>

definition write_mask ::
  "write_outcome \<Rightarrow> string \<Rightarrow> npval list list \<Rightarrow> mstate \<Rightarrow> (py_exn + unit) \<times> mstate" where
  "write_mask wo name arr st =
     (case wo of
        Written \<Rightarrow> (Inr (), st\<lparr>mfiles := (mfiles st)(name \<mapsto> MaskImage arr)\<rparr>)
      | FailedClean \<Rightarrow> (Inl (IOError name), st)
      | FailedPartial \<Rightarrow> (Inl (IOError name), st\<lparr>mfiles := (mfiles st)(name \<mapsto> Incomplete)\<rparr>))"

text \<open>\<^verbatim>\<open>xs[i]\<close>: an index below zero is taken from the end of the list.\<close>

definition py_index :: "'a list \<Rightarrow> int \<Rightarrow> py_exn + 'a" where
  "py_index xs i =
     (if 0 \<le> i \<and> i < int (length xs) then Inr (xs ! nat i)
      else if i < 0 \<and> - int (length xs) \<le> i then Inr (xs ! nat (int (length xs) + i))
      else Inl IndexError)"

definition newline :: string where
  "newline = [CHR 0x0A]"

subsection \<open>\<^verbatim>\<open>buildMaskImage\<close>\<close>

text \<open>
  The body of the \<^verbatim>\<open>try\<close> block (lines 109 to 138).  \<^verbatim>\<open>dqarr == None\<close> holds only when
  there is no array: either no extension of the wanted name, or an extension without data.
\<close>

definition buildMaskImage_try ::
  "write_outcome \<Rightarrow> hdu list \<Rightarrow> int option \<Rightarrow> string \<Rightarrow> string \<Rightarrow> int \<Rightarrow> mstate
     \<Rightarrow> (py_exn + unit) \<times> mstate" where
  "buildMaskImage_try wo fdq bitvalue maskname en ev st =
     (let dqarr = (case findExtname fdq en ev of
                     Some n \<Rightarrow> data (fdq ! n)
                   | None \<Rightarrow> None);
          dqarr' = (case dqarr of
                      Some a \<Rightarrow> Inr a
                    | None \<Rightarrow>
                        (case findExtname fdq ''SCI'' ev of
                           Some k \<Rightarrow>
                             (case data (fdq ! k) of
                                Some sci \<Rightarrow> Inr (map (map (\<lambda>_. 0)) sci)
                              | None \<Rightarrow> Inl (AttributeError ''shape''))
                         | None \<Rightarrow> Inl (PlainException [])))
      in case dqarr' of
           Inl e \<Rightarrow> (Inl e, st)
         | Inr a \<Rightarrow> write_mask wo maskname (buildMask a bitvalue) st)"

definition buildMaskImage ::
  "write_outcome \<Rightarrow> string \<Rightarrow> int option \<Rightarrow> string \<Rightarrow> string \<Rightarrow> int \<Rightarrow> mstate
     \<Rightarrow> (py_exn + string option) \<times> mstate" where
  "buildMaskImage wo rootname bitvalue output en ev st =
     (let maskname = output;
          st1 = (if findFile st maskname then removeFile maskname st else st)
      in case openImage st1 rootname of
           Inl e \<Rightarrow> (Inl e, st1)
         | Inr fdq \<Rightarrow>
             (case buildMaskImage_try wo fdq bitvalue maskname en ev st1 of
                (Inr _, st2) \<Rightarrow> (Inr (Some maskname), st2)
              | (Inl _, st2) \<Rightarrow>
                  (let st3 = (if findFile st2 maskname then removeFile maskname st2 else st2);
                       errstr = newline @ ''Warning: Problem creating MASK file for '' @ rootname
                                @ ''.'' @ newline
                   in (Inr None, print_line errstr st3))))"

subsection \<open>The WFPC2 shadow mask\<close>

text \<open>
  The edge polynomials of the four detectors, over the reals (the source evaluates them in
  double precision).
\<close>

definition func_Shadow_WF1y :: "real \<Rightarrow> real \<Rightarrow> real" where
  "func_Shadow_WF1y x y = y + 0.5 - (42.62779 + 0.009122855 * y - 1.106709 / 10 ^ 5 * y\<^sup>2)"
definition func_Shadow_WF1x :: "real \<Rightarrow> real \<Rightarrow> real" where
  "func_Shadow_WF1x x y = x + 0.5 - (52.20921 + 0.009072887 * x - 9.941337 / 10 ^ 6 * x\<^sup>2)"
definition func_Shadow_WF2y :: "real \<Rightarrow> real \<Rightarrow> real" where
  "func_Shadow_WF2y x y = y + 0.5 - (47.68184 + 0.00265608 * y - 1.468158 / 10 ^ 5 * y\<^sup>2)"
definition func_Shadow_WF2x :: "real \<Rightarrow> real \<Rightarrow> real" where
  "func_Shadow_WF2x x y = x + 0.5 - (21.77283 + 0.01842164 * x - 1.398300 / 10 ^ 5 * x\<^sup>2)"
definition func_Shadow_WF3y :: "real \<Rightarrow> real \<Rightarrow> real" where
  "func_Shadow_WF3y x y = y + 0.5 - (30.23626 + 0.008156041 * y - 1.491324 / 10 ^ 5 * y\<^sup>2)"
definition func_Shadow_WF3x :: "real \<Rightarrow> real \<Rightarrow> real" where
  "func_Shadow_WF3x x y = x + 0.5 - (44.18944 + 0.0138938 * x - 1.412296 / 10 ^ 5 * x\<^sup>2)"
definition func_Shadow_WF4y :: "real \<Rightarrow> real \<Rightarrow> real" where
  "func_Shadow_WF4y x y = y + 0.5 - (40.91462 + 0.01273679 * y - 1.063462 / 10 ^ 5 * y\<^sup>2)"
definition func_Shadow_WF4x :: "real \<Rightarrow> real \<Rightarrow> real" where
  "func_Shadow_WF4x x y = x + 0.5 - (44.56632 + 0.003509023 * x - 1.278723 / 10 ^ 5 * x\<^sup>2)"

text \<open>
  \<^verbatim>\<open>eval(_funcroot+detnum+'x')\<close> and \<^verbatim>\<open>eval(_funcroot+detnum+'y')\<close>: the module defines the
  eight names above and no other of this form, so any other detector raises \<^verbatim>\<open>NameError\<close>.
\<close>

definition eval_func :: "string \<Rightarrow> py_exn + (real \<Rightarrow> real \<Rightarrow> real)" where
  "eval_func name =
     (if name = ''_func_Shadow_WF1x'' then Inr func_Shadow_WF1x
      else if name = ''_func_Shadow_WF1y'' then Inr func_Shadow_WF1y
      else if name = ''_func_Shadow_WF2x'' then Inr func_Shadow_WF2x
      else if name = ''_func_Shadow_WF2y'' then Inr func_Shadow_WF2y
      else if name = ''_func_Shadow_WF3x'' then Inr func_Shadow_WF3x
      else if name = ''_func_Shadow_WF3y'' then Inr func_Shadow_WF3y
      else if name = ''_func_Shadow_WF4x'' then Inr func_Shadow_WF4x
      else if name = ''_func_Shadow_WF4y'' then Inr func_Shadow_WF4y
      else Inl (NameError name))"

text \<open>\<^verbatim>\<open>N.fromfunction(f,(h,w))\<close>: \<open>f\<close> at every index pair, the row index first.\<close>

definition fromfunction :: "(real \<Rightarrow> real \<Rightarrow> real) \<Rightarrow> nat \<times> nat \<Rightarrow> real list list" where
  "fromfunction f shape =
     map (\<lambda>i. map (\<lambda>j. f (real i) (real j)) [0..<snd shape]) [0..<fst shape]"

text \<open>\<^verbatim>\<open>N.clip(v,0.0,1.0).astype(N.uint8)\<close> on one element: clip, then truncate.\<close>

definition clip_uint8 :: "real \<Rightarrow> 8 word" where
  "clip_uint8 v = word_of_int \<lfloor>max 0 (min 1 v)\<rfloor>"

text \<open>Element-wise product of two arrays of one shape.\<close>

definition arr_mult :: "8 word list list \<Rightarrow> 8 word list list \<Rightarrow> 8 word list list" where
  "arr_mult a b = map2 (map2 (*)) a b"

text \<open>
  The slices \<^verbatim>\<open>m[r::2,c::2]\<close> are views: they share the memory of \<open>m\<close>.  A view is given
  by its offsets \<open>(r, c)\<close>; its shape and its elements are read from \<open>m\<close>.
\<close>

definition view_shape :: "8 word list list \<Rightarrow> nat \<times> nat \<Rightarrow> nat \<times> nat" where
  "view_shape m off =
     ((length m + 1 - fst off) div 2,
      (case m of [] \<Rightarrow> 0 | row # _ \<Rightarrow> (length row + 1 - snd off) div 2))"

definition view_get :: "8 word list list \<Rightarrow> nat \<times> nat \<Rightarrow> nat \<Rightarrow> nat \<Rightarrow> 8 word" where
  "view_get m off i j = m ! (2 * i + fst off) ! (2 * j + snd off)"

text \<open>
  \<^verbatim>\<open>bmaskarr *= m[r::2,c::2]\<close> with \<^verbatim>\<open>bmaskarr = m[::2,::2]\<close>: the product is stored through
  the view, that is in \<open>m\<close> itself at the even rows and columns.  Operands of different
  shapes raise \<^verbatim>\<open>ValueError\<close>.
\<close>

definition imul_view :: "8 word list list \<Rightarrow> nat \<times> nat \<Rightarrow> py_exn + 8 word list list" where
  "imul_view m off =
     (if view_shape m (0, 0) = view_shape m off then
        Inr (map (\<lambda>i. map (\<lambda>j. if even i \<and> even j
                                then m ! i ! j * m ! (i + fst off) ! (j + snd off)
                                else m ! i ! j)
                          [0..<length (m ! i)])
                 [0..<length m])
      else Inl (ValueError ''operands could not be broadcast together''))"

text \<open>\<^verbatim>\<open>m[::2,::2].copy()\<close>\<close>

definition view_copy :: "8 word list list \<Rightarrow> 8 word list list" where
  "view_copy m =
     map (\<lambda>i. map (\<lambda>j. view_get m (0, 0) i j) [0..<snd (view_shape m (0, 0))])
         [0..<fst (view_shape m (0, 0))]"

text \<open>
  Lines 216 to 227: the template array of one detector from its two edge functions.
  \<^verbatim>\<open>
  _xarr = N.clip(N.fromfunction(eval(_funcx),(800,800)),0.0,1.0).astype(N.uint8)
  _yarr = N.clip(N.fromfunction(eval(_funcy),(800,800)),0.0,1.0).astype(N.uint8)
  maskarr = _xarr * _yarr
  if binned !=1:
      bmaskarr = maskarr[::2,::2]
      bmaskarr *= maskarr[1::2,::2]
      bmaskarr *= maskarr[::2,1::2]
      bmaskarr *= maskarr[1::2,1::2]
      maskarr = bmaskarr.copy()
  \<close>
\<close>

definition shadow_maskarr ::
  "(real \<Rightarrow> real \<Rightarrow> real) \<Rightarrow> (real \<Rightarrow> real \<Rightarrow> real) \<Rightarrow> int \<Rightarrow> py_exn + 8 word list list" where
  "shadow_maskarr funcx funcy binned =
     (let xarr = map (map clip_uint8) (fromfunction funcx (800, 800));
          yarr = map (map clip_uint8) (fromfunction funcy (800, 800));
          maskarr = arr_mult xarr yarr
      in if binned \<noteq> 1 then
           (case imul_view maskarr (1, 0) of
              Inl e \<Rightarrow> Inl e
            | Inr m1 \<Rightarrow>
                (case imul_view m1 (0, 1) of
                   Inl e \<Rightarrow> Inl e
                 | Inr m2 \<Rightarrow>
                     (case imul_view m2 (1, 1) of
                        Inl e \<Rightarrow> Inl e
                      | Inr m3 \<Rightarrow> Inr (view_copy m3))))
         else Inr maskarr)"

text \<open>\<^verbatim>\<open>str(n)\<close> for an integer, as \<^verbatim>\<open>print\<close> shows it.\<close>

fun show_nat :: "nat \<Rightarrow> string" where
  "show_nat n =
     (if n < 10 then [char_of (48 + n)]
      else show_nat (n div 10) @ [char_of (48 + n mod 10)])"

declare show_nat.simps [simp del]

definition show_int :: "int \<Rightarrow> string" where
  "show_int i = (if i < 0 then CHR ''-'' # show_nat (nat (- i)) else show_nat (nat i))"

subsection \<open>\<^verbatim>\<open>buildShadowMaskImage\<close>\<close>

text \<open>
  The first \<^verbatim>\<open>try\<close> block (lines 213 to 236): build the template of the detector and
  write it to the template file.  \<open>wo\<close> tells how the write of each file ends.
\<close>

definition shadow_template_try ::
  "(string \<Rightarrow> write_outcome) \<Rightarrow> string \<Rightarrow> string \<Rightarrow> int \<Rightarrow> mstate
     \<Rightarrow> (py_exn + unit) \<times> mstate" where
  "shadow_template_try wo detnum inmask binned st =
     (case eval_func (''_func_Shadow_WF'' @ detnum @ ''x'') of
        Inl e \<Rightarrow> (Inl e, st)
      | Inr funcx \<Rightarrow>
          (case eval_func (''_func_Shadow_WF'' @ detnum @ ''y'') of
             Inl e \<Rightarrow> (Inl e, st)
           | Inr funcy \<Rightarrow>
               (let st1 = (if binned \<noteq> 1
                           then print_line (''in buildmask '' @ show_int binned) st else st)
                in case shadow_maskarr funcx funcy binned of
                     Inl e \<Rightarrow> (Inl e, st1)
                   | Inr maskarr \<Rightarrow> write_mask (wo inmask) inmask (map (map UInt8) maskarr) st1)))"

text \<open>The second \<^verbatim>\<open>try\<close> block (lines 257 to 273): the mask from the DQ array alone.\<close>

definition shadow_dqmask_try ::
  "(string \<Rightarrow> write_outcome) \<Rightarrow> hdu list \<Rightarrow> int \<Rightarrow> string \<Rightarrow> int option \<Rightarrow> mstate
     \<Rightarrow> (py_exn + unit) \<times> mstate" where
  "shadow_dqmask_try wo fdq extnum maskname bitvalue st =
     (case py_index fdq extnum of
        Inl e \<Rightarrow> (Inl e, st)
      | Inr h \<Rightarrow>
          (case data h of
             None \<Rightarrow> (Inl (ValueError ''bitwise_or''), st)
           | Some dqarr \<Rightarrow> write_mask (wo maskname) maskname (buildMask dqarr bitvalue) st))"

text \<open>
  \<open>detnum\<close> is the detector after line 191 has made it a string.  The handler of the
  second \<^verbatim>\<open>try\<close> block builds its message from \<^verbatim>\<open>rootname\<close>, a name that is neither a
  parameter nor a local nor a global of the module: evaluating it raises \<^verbatim>\<open>NameError\<close>
  before anything is printed or returned.
\<close>

definition buildShadowMaskImage ::
  "(string \<Rightarrow> write_outcome) \<Rightarrow> string \<Rightarrow> string \<Rightarrow> int \<Rightarrow> string \<Rightarrow> int option \<Rightarrow> int
     \<Rightarrow> mstate \<Rightarrow> (py_exn + string option) \<times> mstate" where
  "buildShadowMaskImage wo dqfile detnum extnum maskname bitvalue binned st =
     (let inmask = ''wfpc2_inmask'' @ detnum @ ''.fits'';
          st1 = (if findFile st maskname then removeFile maskname st else st);
          use_inmask = (\<not> findFile st1 dqfile \<or> bitvalue = None)
      in case (if use_inmask \<and> \<not> findFile st1 inmask
               then shadow_template_try wo detnum inmask binned st1 else (Inr (), st1)) of
           (Inl _, st2) \<Rightarrow> (Inr None, st2)
         | (Inr _, st2) \<Rightarrow>
             (if \<not> findFile st2 dqfile then
                (let st3 = print_line (''DQ file  '' @ dqfile @ ''  NOT found...'') st2;
                     st4 = print_line (''Copying  '' @ inmask @ '' to  '' @ maskname
                                       @ ''  as input mask file.'') st3
                 in case copyFile inmask maskname st4 of
                      Inl e \<Rightarrow> (Inl e, st4)
                    | Inr st5 \<Rightarrow> (Inr (Some maskname), st5))
              else if bitvalue = None then
                (case copyFile inmask maskname st2 of
                   Inl e \<Rightarrow> (Inl e, st2)
                 | Inr st3 \<Rightarrow> (Inr (Some maskname), st3))
              else
                (case openImage st2 dqfile of
                   Inl e \<Rightarrow> (Inl e, st2)
                 | Inr fdq \<Rightarrow>
                     (case shadow_dqmask_try wo fdq extnum maskname bitvalue st2 of
                        (Inr _, st3) \<Rightarrow> (Inr (Some maskname), st3)
                      | (Inl _, st3) \<Rightarrow>
                          (let st4 = (if findFile st3 maskname
                                      then removeFile maskname st3 else st3)
                           in (Inl (NameError ''rootname''), st4))))))"

section \<open>drizzlepac/runaligndriz.py: the processing directories\<close>

text \<open>
  The alignment code works through the file system and the working directory of the
  process.  A directory is the list of its path components from the root; a file is a
  directory and a name; its content is its text (for an image, a token that stands for
  the pixels and the headers).  The files are kept as an association list and the
  directories as a list, so that a state is a value that can be compared.  Standard output
  is left out.
\<close>

type_synonym dirpath = "string list"

record world =
  cwd :: dirpath
  dirs :: "dirpath list"
  files :: "((dirpath \<times> string) \<times> string) list"

text \<open>
  A directory argument is either relative to the working directory (the one component
  given by \<^verbatim>\<open>tmpdir\<close>) or absolute (what \<^verbatim>\<open>os.getcwd()\<close> returned).
\<close>

datatype path = Rel string | Abs dirpath

definition resolve :: "world \<Rightarrow> path \<Rightarrow> dirpath" where
  "resolve w p = (case p of Abs d \<Rightarrow> d | Rel n \<Rightarrow> cwd w @ [n])"

text \<open>
  Control flow of a function body: go on with a value, leave the function with
  \<^verbatim>\<open>return\<close>, or raise.  A step takes the state and returns how it ended with the new
  state; \<open>seq\<close> runs the second step only when the first one goes on, and \<open>resume\<close>
  hands the outcome of a step to what follows it.
\<close>

datatype ('a, 'r) flow = Next 'a | Return 'r | Raise py_exn

type_synonym ('a, 'r) step = "world \<Rightarrow> ('a, 'r) flow \<times> world"

fun resume :: "('a, 'r) flow \<times> world \<Rightarrow> ('a \<Rightarrow> ('b, 'r) step) \<Rightarrow> ('b, 'r) flow \<times> world" where
  "resume (Next x, w) f = f x w"
| "resume (Return r, w) f = (Return r, w)"
| "resume (Raise e, w) f = (Raise e, w)"

definition seq :: "('a, 'r) step \<Rightarrow> ('a \<Rightarrow> ('b, 'r) step) \<Rightarrow> ('b, 'r) step" where
  "seq m f w = resume (m w) f"

definition skip :: "(unit, 'r) step" where
  "skip w = (Next (), w)"

definition lift :: "(world \<Rightarrow> world) \<Rightarrow> (unit, 'r) step" where
  "lift f w = (Next (), f w)"

subsection \<open>Files\<close>

definition read_file :: "world \<Rightarrow> dirpath \<Rightarrow> string \<Rightarrow> string option" where
  "read_file w d n = map_of (files w) (d, n)"

definition write_file :: "dirpath \<Rightarrow> string \<Rightarrow> string \<Rightarrow> world \<Rightarrow> world" where
  "write_file d n c w = w\<lparr>files := AList.update (d, n) c (files w)\<rparr>"

definition remove_file :: "dirpath \<Rightarrow> string \<Rightarrow> world \<Rightarrow> world" where
  "remove_file d n w = w\<lparr>files := AList.delete (d, n) (files w)\<rparr>"

text \<open>\<^verbatim>\<open>os.path.exists(n)\<close> for a name in the working directory.\<close>

definition path_exists :: "world \<Rightarrow> string \<Rightarrow> bool" where
  "path_exists w n = (read_file w (cwd w) n \<noteq> None \<or> cwd w @ [n] \<in> set (dirs w))"

text \<open>
  \<^verbatim>\<open>shutil.copy(f, dst)\<close> for a file \<open>f\<close> of the working directory: into \<open>dst\<close> under
  the same name when \<open>dst\<close> is a directory, onto the file \<open>dst\<close> otherwise.  A missing
  source raises.
\<close>

definition shutil_copy :: "string \<Rightarrow> path \<Rightarrow> (unit, 'r) step" where
  "shutil_copy f dst w =
     (case read_file w (cwd w) f of
        None \<Rightarrow> (Raise (IOError f), w)
      | Some c \<Rightarrow>
          (let p = resolve w dst
           in if p \<in> set (dirs w) then (Next (), write_file p f c w)
              else (Next (), write_file (butlast p) (last p) c w)))"

text \<open>\<^verbatim>\<open>[shutil.copy(f, dst) for f in fs]\<close>\<close>

fun copy_all :: "string list \<Rightarrow> path \<Rightarrow> (unit, 'r) step" where
  "copy_all [] dst w = skip w"
| "copy_all (f # fs) dst w = seq (shutil_copy f dst) (\<lambda>_. copy_all fs dst) w"

text \<open>
  \<^verbatim>\<open>os.getcwd()\<close> fails when the working directory no longer exists; \<^verbatim>\<open>os.chdir\<close> fails
  when its target is not a directory.
\<close>

definition os_getcwd :: "(dirpath, 'r) step" where
  "os_getcwd w =
     (if cwd w \<in> set (dirs w) then (Next (cwd w), w) else (Raise (IOError ''getcwd''), w))"

definition os_chdir :: "path \<Rightarrow> (unit, 'r) step" where
  "os_chdir p w =
     (let d = resolve w p
      in if d \<in> set (dirs w) then (Next (), w\<lparr>cwd := d\<rparr>) else (Raise (IOError ''chdir''), w))"

text \<open>\<^verbatim>\<open>fits.getdata(name, ext=1)\<close> of a file in directory \<open>d\<close>.\<close>

definition fits_getdata :: "dirpath \<Rightarrow> string \<Rightarrow> (string, 'r) step" where
  "fits_getdata d n w =
     (case read_file w d n of None \<Rightarrow> (Raise (IOError n), w) | Some c \<Rightarrow> (Next c, w))"

subsection \<open>Strings\<close>

text \<open>
  \<^verbatim>\<open>s.replace(old, new)\<close>: every occurrence, left to right, without overlap.  The counter
  of \<open>replace_from\<close> is the number of characters of a match still to be skipped.
\<close>

fun replace_from :: "string \<Rightarrow> string \<Rightarrow> nat \<Rightarrow> string \<Rightarrow> string" where
  "replace_from old new k [] = []"
| "replace_from old new (Suc k) (c # cs) = replace_from old new k cs"
| "replace_from old new 0 (c # cs) =
     (if prefix old (c # cs) then new @ replace_from old new (length old - 1) cs
      else c # replace_from old new 0 cs)"

definition str_replace :: "string \<Rightarrow> string \<Rightarrow> string \<Rightarrow> string" where
  "str_replace old new s =
     (if old = [] then new @ concat (map (\<lambda>c. c # new) s) else replace_from old new 0 s)"

text \<open>\<^verbatim>\<open>s.endswith(suffix)\<close>\<close>

definition endswith :: "string \<Rightarrow> string \<Rightarrow> bool" where
  "endswith s sfx = suffix sfx s"

definition exn_name :: "py_exn \<Rightarrow> string" where
  "exn_name e =
     (case e of
        KeyError _ \<Rightarrow> ''KeyError'' | AttributeError _ \<Rightarrow> ''AttributeError''
      | NameError _ \<Rightarrow> ''NameError'' | UnboundLocalError _ \<Rightarrow> ''UnboundLocalError''
      | IndexError \<Rightarrow> ''IndexError'' | ValueError _ \<Rightarrow> ''ValueError''
      | IOError _ \<Rightarrow> ''OSError'' | ImportError _ \<Rightarrow> ''ImportError''
      | PlainException _ \<Rightarrow> ''Exception'')"

text \<open>\<^verbatim>\<open>str(e)\<close>\<close>

definition exn_str :: "py_exn \<Rightarrow> string" where
  "exn_str e =
     (case e of
        KeyError m \<Rightarrow> m | AttributeError m \<Rightarrow> m | NameError m \<Rightarrow> m | UnboundLocalError m \<Rightarrow> m
      | IndexError \<Rightarrow> ''list index out of range'' | ValueError m \<Rightarrow> m
      | IOError m \<Rightarrow> m | ImportError m \<Rightarrow> m | PlainException m \<Rightarrow> m)"

text \<open>\<^verbatim>\<open>str(sys.exc_info()[0])\<close>\<close>

definition exn_class_str :: "py_exn \<Rightarrow> string" where
  "exn_class_str e = ''<class '' @ [CHR 0x27] @ exn_name e @ [CHR 0x27] @ ''>''"

text \<open>
  \<^verbatim>\<open>UnboundLocalError\<close> is a subclass of \<^verbatim>\<open>NameError\<close>: a handler or a test for
  \<^verbatim>\<open>NameError\<close> accepts both.
\<close>

definition is_NameError :: "py_exn \<Rightarrow> bool" where
  "is_NameError e = (case e of NameError _ \<Rightarrow> True | UnboundLocalError _ \<Rightarrow> True | _ \<Rightarrow> False)"

subsection \<open>The collaborators\<close>

text \<open>
  A focus dictionary is what \<^verbatim>\<open>amutils.build_focus_dict\<close> returns: the product name and
  the focus measurements, which only \<^verbatim>\<open>amutils.evaluate_focus\<close> interprets.  A row of the
  table returned by \<^verbatim>\<open>alignimages.perform_align\<close> has the four columns the code reads.
\<close>

record focus_dict =
  prodname :: string
  focus_data :: string

record align_row =
  imageName :: string
  status :: int
  catalog :: string
  headerletFile :: string

datatype par_value = PBool bool | PInt int | PStr string | PFloat real | PNone

type_synonym pars = "(string \<times> par_value) list"

text \<open>
  What a collaborator writes is a list of files of the working directory with their new
  contents.  No collaborator changes the working directory or removes a directory.
\<close>

type_synonym writes = "(string \<times> string) list"

text \<open>
  The drizzle engine, the catalog aligner, the WCS updater, the focus and similarity
  evaluators, the clock and the operating system are not part of the repository.  Each is a
  parameter: a function of the state it can see and of its arguments that returns its
  result, or the exception it raises, and the files it has written.
\<close>

record env =
  time_prefix :: string
  time_str :: string
  pyver :: string
  import_headerlet :: "py_exn option"
  makedirs :: "dirpath \<Rightarrow> py_exn option"
  updatewcs :: "world \<Rightarrow> string list \<Rightarrow> bool \<Rightarrow> (py_exn + unit) \<times> writes"
  perform_align :: "world \<Rightarrow> string list \<Rightarrow> string \<Rightarrow> (py_exn + align_row list) \<times> writes"
  apply_headerlet_as_primary :: "world \<Rightarrow> string \<Rightarrow> string \<Rightarrow> (py_exn + unit) \<times> writes"
  process_input :: "world \<Rightarrow> string \<Rightarrow> (py_exn + string list \<times> string) \<times> writes"
  AstroDrizzle :: "world \<Rightarrow> string \<Rightarrow> pars \<Rightarrow> (py_exn + unit) \<times> writes"
  build_focus_dict :: "world \<Rightarrow> string list \<Rightarrow> string \<Rightarrow> (py_exn + focus_dict) \<times> writes"
  json_dump :: "focus_dict list \<Rightarrow> string"
  evaluate_focus :: "focus_dict \<Rightarrow> py_exn + bool"
  compute_similarity :: "string \<Rightarrow> string \<Rightarrow> py_exn + real"
  format_float :: "real \<Rightarrow> string"

definition apply_writes :: "writes \<Rightarrow> world \<Rightarrow> world" where
  "apply_writes ws w = fold (\<lambda>(n, c). write_file (cwd w) n c) ws w"

definition call_ext :: "(world \<Rightarrow> (py_exn + 'a) \<times> writes) \<Rightarrow> ('a, 'r) step" where
  "call_ext f w =
     (case f w of
        (Inl e, ws) \<Rightarrow> (Raise e, apply_writes ws w)
      | (Inr x, ws) \<Rightarrow> (Next x, apply_writes ws w))"

subsection \<open>The trailer file\<close>

text \<open>
  \<^verbatim>\<open>_appendTrlFile(trlfile, drizfile)\<close>: nothing when \<open>drizfile\<close> is missing; otherwise its
  text is appended to \<open>trlfile\<close> (created when missing) and \<open>drizfile\<close> is removed.  Both
  names are resolved in the working directory of the moment.
\<close>

definition appendTrlFile :: "string \<Rightarrow> string \<Rightarrow> world \<Rightarrow> world" where
  "appendTrlFile trlfile drizfile w =
     (case read_file w (cwd w) drizfile of
        None \<Rightarrow> w
      | Some dlines \<Rightarrow>
          (let old = (case read_file w (cwd w) trlfile of None \<Rightarrow> [] | Some t \<Rightarrow> t)
           in remove_file (cwd w) drizfile (write_file (cwd w) trlfile (old @ dlines) w)))"

text \<open>\<^verbatim>\<open>_updateTrlFile(trlfile, trl_lines)\<close>\<close>

definition updateTrlFile :: "string \<Rightarrow> string \<Rightarrow> world \<Rightarrow> world" where
  "updateTrlFile trlfile trl_lines w =
     (let tmptrl = str_replace ''.tra'' ''_tmp.tra'' trlfile
      in appendTrlFile trlfile tmptrl (write_file (cwd w) tmptrl trl_lines w))"

text \<open>\<^verbatim>\<open>open(trlfile, 'a')\<close> followed by writes of \<open>txt\<close>.\<close>

definition append_text :: "string \<Rightarrow> string \<Rightarrow> world \<Rightarrow> world" where
  "append_text trlfile txt w =
     write_file (cwd w) trlfile
       ((case read_file w (cwd w) trlfile of None \<Rightarrow> [] | Some t \<Rightarrow> t) @ txt) w"

text \<open>\<^verbatim>\<open>_timestamp(name)\<close>; a negative repeat count gives the empty string.\<close>

definition timestamp :: "env \<Rightarrow> string \<Rightarrow> string" where
  "timestamp env name =
     time_prefix env @ name @ replicate (60 - length name) (CHR ''-'') @ newline"

definition trlmarker :: string where
  "trlmarker = ''*** astrodrizzle Processing Version 2.0.0(25-Sep-2019)***'' @ newline"

subsection \<open>\<^verbatim>\<open>run_driz\<close>\<close>

text \<open>
  The handler of the \<^verbatim>\<open>try\<close> around the drizzle engine (lines 505 to 515): the logs and
  the error go to the trailer file, and a plain \<^verbatim>\<open>Exception\<close> with the same text is raised.
\<close>

definition driz_failed :: "string \<Rightarrow> string \<Rightarrow> string \<Rightarrow> string \<Rightarrow> py_exn \<Rightarrow> world \<Rightarrow> world" where
  "driz_failed trlfile drizlog pyd_err infile e w =
     append_text trlfile
       (''ERROR: Could not complete astrodrizzle processing of '' @ infile @ ''.'' @ newline
        @ exn_class_str e @ '': '' @ exn_str e @ newline)
       (appendTrlFile trlfile pyd_err (appendTrlFile trlfile drizlog w))"

text \<open>
  The call of the drizzle engine with its handler (lines 500 to 515).
  \<^verbatim>\<open>util.end_logging\<close> only closes a log handler.
\<close>

definition call_AstroDrizzle :: "env \<Rightarrow> string \<Rightarrow> pars \<Rightarrow> string \<Rightarrow> string \<Rightarrow> (unit, 'r) step" where
  "call_AstroDrizzle env trlfile pipeline_pars drizlog infile w =
     (let pyd_err = str_replace ''.tra'' ''_pydriz.stderr'' trlfile
      in case AstroDrizzle env w infile pipeline_pars of
           (Inr _, ws) \<Rightarrow> (Next (), apply_writes ws w)
         | (Inl e, ws) \<Rightarrow>
             (Raise (PlainException (exn_str e)),
              driz_failed trlfile drizlog pyd_err infile e (apply_writes ws w)))"

text \<open>
  The evaluation of the products of one input (lines 519 to 534): the focus dictionary is
  appended, the list is dumped to the JSON file of the product, and the log of the engine
  is moved into the trailer file.
\<close>

definition focus_and_logs ::
  "env \<Rightarrow> string \<Rightarrow> string \<Rightarrow> string list \<Rightarrow> string \<Rightarrow> focus_dict list
     \<Rightarrow> (focus_dict list, 'r) step" where
  "focus_and_logs env trlfile drizlog calfiles drz_product focus_dicts w =
     (case calfiles of
        [] \<Rightarrow> (Raise IndexError, w)
      | c0 # _ \<Rightarrow>
          (let cal_suffix = (if endswith c0 ''_flt.fits'' then ''_flt'' else ''_flc'');
               single_files = map (str_replace cal_suffix ''_single_sci'') calfiles;
               json_name = str_replace ''.fits'' ''_focus.json'' drz_product;
               drizlog_copy = str_replace ''.log'' ''_copy.log'' drizlog
           in seq (call_ext (\<lambda>w. build_focus_dict env w single_files drz_product)) (\<lambda>fd.
              seq (lift (\<lambda>w. write_file (cwd w) json_name
                                 (json_dump env (focus_dicts @ [fd])) w)) (\<lambda>_.
              seq (shutil_copy drizlog (Rel drizlog_copy)) (\<lambda>_.
              seq (lift (appendTrlFile trlfile drizlog_copy)) (\<lambda>_.
              seq (lift (\<lambda>w. if path_exists w drizlog
                              then remove_file (cwd w) drizlog w else w)) (\<lambda>_.
              (\<lambda>w. (Next (focus_dicts @ [fd]), w))))))) w))"

text \<open>
  One round of the loop over \<^verbatim>\<open>inlist\<close> (lines 484 to 534), from the two lists collected so
  far to the two lists extended.
\<close>

definition run_driz_one ::
  "env \<Rightarrow> string \<Rightarrow> pars \<Rightarrow> string \<Rightarrow> string \<Rightarrow> string list \<times> focus_dict list
     \<Rightarrow> (string list \<times> focus_dict list, 'r) step" where
  "run_driz_one env trlfile pipeline_pars drizlog infile acc w =
     seq (call_ext (\<lambda>w. process_input env w infile)) (\<lambda>(calfiles, drz_product).
       (let trlmsg = timestamp env ''astrodrizzle started '' @ trlmarker
                     @ time_str env @ '': Processing '' @ infile
                     @ '' with astrodrizzle Version '' @ pyver env @ newline
        in seq (lift (updateTrlFile trlfile trlmsg)) (\<lambda>_.
           seq (call_AstroDrizzle env trlfile pipeline_pars drizlog infile) (\<lambda>_.
           seq (focus_and_logs env trlfile drizlog calfiles drz_product (snd acc)) (\<lambda>focus_dicts.
           (\<lambda>w. (Next (fst acc @ [drz_product], focus_dicts), w))))))) w"

fun run_driz_loop ::
  "env \<Rightarrow> string \<Rightarrow> pars \<Rightarrow> string \<Rightarrow> string list \<Rightarrow> string list \<times> focus_dict list
     \<Rightarrow> (string list \<times> focus_dict list, 'r) step" where
  "run_driz_loop env trlfile pipeline_pars drizlog [] acc w = (Next acc, w)"
| "run_driz_loop env trlfile pipeline_pars drizlog (infile # rest) acc w =
     seq (run_driz_one env trlfile pipeline_pars drizlog infile acc)
         (run_driz_loop env trlfile pipeline_pars drizlog rest) w"

definition run_driz ::
  "env \<Rightarrow> string list \<Rightarrow> string \<Rightarrow> pars \<Rightarrow> (string list \<times> focus_dict list, 'r) step" where
  "run_driz env inlist trlfile pipeline_pars w =
     (let runfile = str_replace ''.tra'' ''_pydriz'' trlfile;
          pipeline_pars' = AList.update ''runfile'' (PStr runfile) pipeline_pars;
          drizlog = runfile @ ''.log''
      in run_driz_loop env trlfile pipeline_pars' drizlog inlist ([], []) w)"

subsection \<open>\<^verbatim>\<open>verify_alignment\<close>\<close>

text \<open>The parameters set when no cosmic rays are to be identified (lines 547 to 559).\<close>

definition no_crs_pars :: "pars \<Rightarrow> pars" where
  "no_crs_pars pipeline_pars =
     fold (\<lambda>(k, v). AList.update k v)
       [(''mdriztab'', PBool False), (''build'', PBool True), (''resetbits'', PInt 0),
        (''static'', PBool False), (''skysub'', PBool False), (''driz_separate'', PBool True),
        (''driz_sep_bits'', PStr ''~6400''), (''driz_sep_fillval'', PFloat 0),
        (''median'', PBool False), (''blot'', PBool False), (''driz_cr'', PBool False)]
       pipeline_pars"

text \<open>
  Staging (lines 561 to 568): the directory of the attempt is created when nothing of
  that name exists, and the inputs are copied into it.  The working directory is not
  touched and \<^verbatim>\<open>parent_dir\<close> is not yet assigned.
\<close>

definition staging ::
  "env \<Rightarrow> string list \<Rightarrow> string list \<Rightarrow> string list \<Rightarrow> string \<Rightarrow> (unit, 'r) step" where
  "staging env inlist calfiles calfiles_flc tmpdir w =
     seq (\<lambda>w. if \<not> path_exists w tmpdir then
                 (case makedirs env (cwd w @ [tmpdir]) of
                    Some e \<Rightarrow> (Raise e, w)
                  | None \<Rightarrow> (Next (), w\<lparr>dirs := dirs w @ [cwd w @ [tmpdir]]\<rparr>))
               else (Next (), w)) (\<lambda>_.
     seq (copy_all (inlist @ calfiles) (Rel tmpdir)) (\<lambda>_.
     if calfiles_flc \<noteq> [] then copy_all calfiles_flc (Rel tmpdir) else skip)) w"

text \<open>
  The loop over the rows of the alignment table (lines 598 to 605).  \<open>Inr\<close> carries the
  message when every row has status 0.  At the first other row the source appends
  ``Could not align ...'' to its local \<^verbatim>\<open>trlmsg\<close> and returns \<^verbatim>\<open>None\<close> at once: \<open>Inl\<close>
  carries the message as it stands at that \<^verbatim>\<open>return\<close>.
\<close>

fun scan_align_table :: "align_row list \<Rightarrow> string \<Rightarrow> string + string" where
  "scan_align_table [] trlmsg = Inr trlmsg"
| "scan_align_table (row # rows) trlmsg =
     (if status row = 0 then
        scan_align_table rows
          (trlmsg @ ''Successfully aligned '' @ imageName row @ '' to '' @ catalog row
           @ '' astrometric frame'' @ newline)
      else
        Inl (trlmsg @ ''Could not align '' @ imageName row
             @ '' to absolute astrometric frame'' @ newline))"

text \<open>The loop that applies the headerlets to the companion files (lines 625 to 635).\<close>

fun apply_headerlets ::
  "env \<Rightarrow> align_row list \<Rightarrow> (string \<times> string) list \<Rightarrow> string \<Rightarrow> (string, 'r) step" where
  "apply_headerlets env align_table [] trlmsg w = (Next trlmsg, w)"
| "apply_headerlets env align_table ((fltfile, flcfile) # rest) trlmsg w =
     (case filter (\<lambda>row. imageName row = flcfile) align_table of
        [] \<Rightarrow> (Raise IndexError, w)
      | row # _ \<Rightarrow>
          (if headerletFile row \<noteq> ''None'' then
             seq (call_ext (\<lambda>w. apply_headerlet_as_primary env w fltfile (headerletFile row))) (\<lambda>_.
               apply_headerlets env align_table rest
                 (trlmsg @ ''Applying headerlet '' @ headerletFile row @ '' as Primary WCS to ''
                  @ fltfile @ newline)) w
           else
             apply_headerlets env align_table rest
               (trlmsg @ ''No absolute astrometric headerlet applied to '' @ fltfile @ newline) w))"

text \<open>
  The a-posteriori alignment (lines 589 to 639).  The inner \<^verbatim>\<open>try\<close> covers the call of
  the aligner and the loop over its table; its handler writes to the trailer file and
  returns \<^verbatim>\<open>None\<close>.  The \<^verbatim>\<open>return None\<close> inside the loop writes nothing.
\<close>

definition aposteriori_step ::
  "env \<Rightarrow> string \<Rightarrow> string list \<Rightarrow> string list \<Rightarrow> (unit, focus_dict list option) step" where
  "aposteriori_step env trlfile alignfiles align_update_files w =
     (let trlmsg = timestamp env ''Align_to_GAIA started '';
          alignlog = str_replace ''.tra'' ''_align.log'' trlfile;
          alignlog_copy = str_replace ''_align'' ''_align_copy'' alignlog
      in seq (lift (updateTrlFile trlfile trlmsg)) (\<lambda>_.
         seq (\<lambda>w. case perform_align env w alignfiles alignlog of
                    (Inl e, ws) \<Rightarrow>
                      (Return None,
                       updateTrlFile trlfile
                         (''EXCEPTION encountered in alignimages...'' @ newline
                          @ ''   No correction to absolute astrometric frame applied!'' @ newline)
                         (apply_writes ws w))
                  | (Inr align_table, ws) \<Rightarrow>
                      (case scan_align_table align_table trlmsg of
                         Inl _ \<Rightarrow> (Return None, apply_writes ws w)
                       | Inr trlmsg' \<Rightarrow> (Next (align_table, trlmsg'), apply_writes ws w)))
           (\<lambda>(align_table, trlmsg').
         seq (shutil_copy alignlog (Rel alignlog_copy)) (\<lambda>_.
         seq (lift (appendTrlFile trlfile alignlog_copy)) (\<lambda>_.
         seq (lift (updateTrlFile trlfile trlmsg')) (\<lambda>_.
         seq (if align_update_files \<noteq> [] \<and> align_table \<noteq> []
              then apply_headerlets env align_table (zip align_update_files alignfiles) []
              else (\<lambda>w. (Next [], w))) (\<lambda>trlmsg2.
         lift (updateTrlFile trlfile
                 (trlmsg2 @ timestamp env ''Align_to_GAIA completed '')))))))) w)"

text \<open>Line 648: the focus dictionary of the CTE-corrected product when there is one.\<close>

definition select_focus :: "focus_dict list \<Rightarrow> py_exn + focus_dict" where
  "select_focus focus_dicts =
     (case focus_dicts of
        [] \<Rightarrow> Inl IndexError
      | f0 # _ \<Rightarrow>
          Inr (if str_contains ''drc'' (prodname (last focus_dicts))
               then last focus_dicts else f0))"

text \<open>
  Lines 658 to 675, for a non-default mode: the product of the attempt is compared with
  the product of the same name in the directory above.  A similarity index above 1 sets
  \<^verbatim>\<open>alignment_verified\<close> to \<^verbatim>\<open>False\<close>; \<^verbatim>\<open>force_alignment\<close> then only selects the message.
\<close>

definition check_similarity ::
  "env \<Rightarrow> bool \<Rightarrow> focus_dict \<Rightarrow> bool \<Rightarrow> string \<Rightarrow> (bool \<times> string, 'r) step" where
  "check_similarity env force_alignment align_focus alignment_verified trlmsg w =
     seq (\<lambda>w. fits_getdata (cwd w) (prodname align_focus) w) (\<lambda>alignprod.
     seq (\<lambda>w. fits_getdata (butlast (cwd w)) (prodname align_focus) w) (\<lambda>align_ref.
     (\<lambda>w. case compute_similarity env alignprod align_ref of
             Inl e \<Rightarrow> (Raise e, w)
           | Inr sim_indx \<Rightarrow>
               (if sim_indx > 1 then
                  (Next (False,
                         trlmsg @ ''Astrometry alignment FAILED with a similarity index of ''
                         @ format_float env sim_indx @ ''!'' @ newline
                         @ (if force_alignment
                            then ''  WARNING: '' @ newline
                                 @ ''KEEPING potentially compromised astrometry solution!'' @ newline
                            else ''  Reverting to pipeline-default WCS-based alignment.''
                                 @ newline)), w)
                else
                  (Next (alignment_verified,
                         trlmsg @ ''Alignment appeared to succeed based on similarity index of ''
                         @ format_float env sim_indx @ newline), w))))) w"

text \<open>Lines 680 to 684: the exposures and the products go to the parent directory.\<close>

definition save_products ::
  "string list \<Rightarrow> string list \<Rightarrow> string list \<Rightarrow> dirpath \<Rightarrow> (unit, 'r) step" where
  "save_products calfiles calfiles_flc drz_products parent_dir w =
     seq (copy_all calfiles (Abs parent_dir)) (\<lambda>_.
     seq (if calfiles_flc \<noteq> [] then copy_all calfiles_flc (Abs parent_dir) else skip) (\<lambda>_.
     copy_all drz_products (Abs parent_dir))) w"

text \<open>\<^verbatim>\<open>if alignment_mode:\<close>\<close>

definition mode_given :: "string option \<Rightarrow> bool" where
  "mode_given alignment_mode = (case alignment_mode of None \<Rightarrow> False | Some m \<Rightarrow> m \<noteq> [])"

text \<open>The verification (lines 645 to 687).\<close>

definition score_and_save ::
  "env \<Rightarrow> string list \<Rightarrow> string list \<Rightarrow> string \<Rightarrow> string option \<Rightarrow> bool \<Rightarrow> dirpath
     \<Rightarrow> string list \<Rightarrow> focus_dict list \<Rightarrow> (unit, 'r) step" where
  "score_and_save env calfiles calfiles_flc trlfile alignment_mode force_alignment parent_dir
       drz_products focus_dicts w =
     (case select_focus focus_dicts of
        Inl e \<Rightarrow> (Raise e, w)
      | Inr align_focus \<Rightarrow>
          (case evaluate_focus env align_focus of
             Inl e \<Rightarrow> (Raise e, w)
           | Inr focus_ok \<Rightarrow>
               (let trlmsg = timestamp env ''Verification of alignment started ''
                       @ (if focus_ok
                          then ''Focus verification indicated that alignment SUCCEEDED.''
                          else ''Focus verification indicated that alignment FAILED.'')
                       @ newline
                in seq (if mode_given alignment_mode
                        then check_similarity env force_alignment align_focus focus_ok trlmsg
                        else (\<lambda>w. (Next (focus_ok, trlmsg), w))) (\<lambda>(alignment_verified, trlmsg1).
                   seq (if alignment_verified
                        then save_products calfiles calfiles_flc drz_products parent_dir
                        else skip) (\<lambda>_.
                   lift (updateTrlFile trlfile
                           ((if alignment_verified
                             then trlmsg1 @ ''Saving products with new alignment.'' @ newline
                             else trlmsg1)
                            @ timestamp env ''Verification of alignment completed '')))) w)))"

text \<open>
  The \<^verbatim>\<open>try\<close> block from the change of directory on (lines 571 to 687), with
  \<^verbatim>\<open>parent_dir\<close> assigned.
\<close>

definition attempt ::
  "env \<Rightarrow> string list \<Rightarrow> string list \<Rightarrow> string list \<Rightarrow> string \<Rightarrow> string \<Rightarrow> string option
     \<Rightarrow> bool \<Rightarrow> pars \<Rightarrow> dirpath \<Rightarrow> (focus_dict list, focus_dict list option) step" where
  "attempt env inlist calfiles calfiles_flc0 trlfile tmpdir alignment_mode force_alignment
       pipeline_pars parent_dir w0 =
     seq (os_chdir (Rel tmpdir)) (\<lambda>_ w.
       (let calfiles_flc = (if calfiles_flc0 = [] \<or> \<not> path_exists w (hd calfiles_flc0)
                            then [] else calfiles_flc0);
            alignfiles = (if calfiles_flc \<noteq> [] then calfiles_flc else calfiles);
            align_update_files = (if calfiles_flc \<noteq> [] then calfiles else [])
        in seq (if alignment_mode = Some ''apriori'' then
                  seq (call_ext (\<lambda>w. updatewcs env w calfiles True)) (\<lambda>_.
                    if calfiles_flc \<noteq> [] then call_ext (\<lambda>w. updatewcs env w calfiles_flc True)
                    else skip)
                else if alignment_mode = Some ''aposteriori'' then
                  aposteriori_step env trlfile alignfiles align_update_files
                else skip) (\<lambda>_.
           seq (run_driz env inlist trlfile pipeline_pars) (\<lambda>(drz_products, focus_dicts).
           seq (score_and_save env calfiles calfiles_flc trlfile alignment_mode force_alignment
                  parent_dir drz_products focus_dicts) (\<lambda>_.
           (\<lambda>w. (Next focus_dicts, w)))))) w) w0"

text \<open>
  The \<^verbatim>\<open>finally\<close> clause with \<^verbatim>\<open>parent_dir\<close> assigned, and the \<^verbatim>\<open>return focus_dicts\<close>
  that follows it.  An exception of the clause itself replaces the outcome of the block.
\<close>

definition finally_chdir ::
  "dirpath \<Rightarrow> (focus_dict list, focus_dict list option) flow \<times> world
     \<Rightarrow> (py_exn + focus_dict list option) \<times> world" where
  "finally_chdir parent_dir res =
     (case os_chdir (Abs parent_dir) (snd res) :: (unit, unit) flow \<times> world of
        (Raise e, w') \<Rightarrow> (Inl e, w')
      | (_, w') \<Rightarrow>
          ((case fst res of
              Next focus_dicts \<Rightarrow> Inr (Some focus_dicts)
            | Return r \<Rightarrow> Inr r
            | Raise e \<Rightarrow> Inl e), w'))"

text \<open>
  \<^verbatim>\<open>verify_alignment\<close>.  The result is \<open>Inr (Some focus_dicts)\<close> for
  \<^verbatim>\<open>return focus_dicts\<close>, \<open>Inr None\<close> for \<^verbatim>\<open>return None\<close> and \<open>Inl e\<close> when \<open>e\<close>
  reaches the caller.  When the \<^verbatim>\<open>try\<close> block is left before line 570 has assigned
  \<^verbatim>\<open>parent_dir\<close>, the \<^verbatim>\<open>finally\<close> clause reads an unbound local.
\<close>

definition verify_alignment ::
  "env \<Rightarrow> string list \<Rightarrow> string list \<Rightarrow> string list \<Rightarrow> string \<Rightarrow> bool \<Rightarrow> string
     \<Rightarrow> string option \<Rightarrow> bool \<Rightarrow> pars \<Rightarrow> world \<Rightarrow> (py_exn + focus_dict list option) \<times> world" where
  "verify_alignment env inlist calfiles calfiles_flc trlfile find_crs tmpdir alignment_mode
       force_alignment pipeline_pars w =
     (case (if alignment_mode = Some ''aposteriori'' then import_headerlet env else None) of
        Some e \<Rightarrow> (Inl e, w)
      | None \<Rightarrow>
          (let pipeline_pars' = (if \<not> find_crs then no_crs_pars pipeline_pars
                                 else pipeline_pars)
           in case (staging env inlist calfiles calfiles_flc tmpdir w
                      :: (unit, unit) flow \<times> world) of
                (Next _, w1) \<Rightarrow>
                  (case (os_getcwd w1 :: (dirpath, unit) flow \<times> world) of
                     (Next parent_dir, w2) \<Rightarrow>
                       finally_chdir parent_dir
                         (attempt env inlist calfiles calfiles_flc trlfile tmpdir alignment_mode
                            force_alignment pipeline_pars' parent_dir w2)
                   | (_, w2) \<Rightarrow> (Inl (UnboundLocalError ''parent_dir''), w2))
              | (_, w1) \<Rightarrow> (Inl (UnboundLocalError ''parent_dir''), w1)))"

subsection \<open>\<^verbatim>\<open>process\<close>: the sequence of attempts\<close>

definition pipeline_pars_default :: pars where
  "pipeline_pars_default =
     [(''mdriztab'', PBool True), (''in_memory'', PBool False), (''stepsize'', PInt 10),
      (''output'', PStr []), (''preserve'', PBool False), (''clean'', PBool False),
      (''resetbits'', PInt 4096)]"

text \<open>Truth value of what \<^verbatim>\<open>verify_alignment\<close> returned.\<close>

definition truthy :: "focus_dict list option \<Rightarrow> bool" where
  "truthy r = (case r of None \<Rightarrow> False | Some ds \<Rightarrow> ds \<noteq> [])"

text \<open>
  Lines 336 to 380 of \<^verbatim>\<open>process\<close>, from the lists of inputs it has built: the WCS of the
  pipeline, then the three attempts.  The result is \<^verbatim>\<open>align_dicts\<close> as it stands at line 381.
\<close>

definition process_attempts ::
  "env \<Rightarrow> string list \<Rightarrow> string list \<Rightarrow> string list \<Rightarrow> string \<Rightarrow> par_value \<Rightarrow> bool \<Rightarrow> bool
     \<Rightarrow> world \<Rightarrow> (py_exn + focus_dict list option) \<times> world" where
  "process_attempts env inlist calfiles calfiles_flc trlfile num_cores align_to_gaia
       force_alignment w =
     (case (seq (call_ext (\<lambda>w. updatewcs env w calfiles False)) (\<lambda>_.
              if calfiles_flc \<noteq> [] then call_ext (\<lambda>w. updatewcs env w calfiles_flc False)
              else skip) w :: (unit, unit) flow \<times> world) of
        (Raise e, w0) \<Rightarrow> (Inl e, w0)
      | (_, w0) \<Rightarrow>
          (let pipeline_pars = AList.update ''num_cores'' num_cores pipeline_pars_default
           in case verify_alignment env inlist calfiles calfiles_flc trlfile True
                     ''pipeline-default'' None force_alignment pipeline_pars w0 of
                (Inl e, w1) \<Rightarrow> (Inl e, w1)
              | (Inr align_dicts, w1) \<Rightarrow>
                  (case verify_alignment env inlist calfiles calfiles_flc trlfile False
                          ''apriori'' (Some ''apriori'') force_alignment pipeline_pars w1 of
                     (Inl e, w2) \<Rightarrow> (Inl e, w2)
                   | (Inr align_apriori, w2) \<Rightarrow>
                       (let align_dicts1 = (if truthy align_apriori then align_apriori
                                            else align_dicts)
                        in if align_to_gaia then
                             (case verify_alignment env inlist calfiles calfiles_flc trlfile
                                     False ''aposteriori'' (Some ''aposteriori'')
                                     force_alignment pipeline_pars w2 of
                                (Inl e, w3) \<Rightarrow> (Inl e, w3)
                              | (Inr align_aposteriori, w3) \<Rightarrow>
                                  (Inr (if truthy align_aposteriori then align_aposteriori
                                        else align_dicts1), w3))
                           else (Inr align_dicts1, w2)))))"

subsection \<open>A small association\<close>

text \<open>
  One association \<^verbatim>\<open>j_asn.fits\<close> with one exposure \<^verbatim>\<open>j_flt.fits\<close>, in the directory
  \<^verbatim>\<open>/work\<close>.  The collaborators are the simplest ones that tell the attempts apart: the
  drizzle engine writes a product whose content names the directory it ran in, the focus
  dictionary records that directory, and the focus evaluation fails in the directory
  \<open>bad_focus\<close> only.  The similarity index is \<open>sim\<close> and every row of the alignment table
  has the status \<open>st\<close>; when \<open>mk\<close> is an exception no directory can be created.
\<close>

definition example_env :: "string \<Rightarrow> real \<Rightarrow> int \<Rightarrow> py_exn option \<Rightarrow> env" where
  "example_env bad_focus sim st mk =
     \<lparr>time_prefix = ''2019268-I-----'',
      time_str = ''12:00:00'',
      pyver = ''2.2.6'',
      import_headerlet = None,
      makedirs = (\<lambda>_. mk),
      updatewcs = (\<lambda>w fs use_db. (Inr (), [])),
      perform_align = (\<lambda>w fs runfile.
         (Inr (map (\<lambda>f. \<lparr>imageName = f, status = st, catalog = ''GAIADR2'',
                           headerletFile = ''None''\<rparr>) fs),
          [(runfile, ''align log'' @ newline)])),
      apply_headerlet_as_primary = (\<lambda>w f h. (Inr (), [])),
      process_input = (\<lambda>w f. (Inr ([''j_flt.fits''], ''j_drz.fits''), [])),
      AstroDrizzle = (\<lambda>w f ps.
         (Inr (), [(''j_drz.fits'', ''drz of '' @ last (cwd w)),
                   (''j_pydriz.log'', ''driz log'' @ newline)])),
      build_focus_dict = (\<lambda>w singles prod.
         (Inr \<lparr>prodname = prod, focus_data = last (cwd w)\<rparr>, [])),
      json_dump = (\<lambda>fds. concat (map focus_data fds)),
      evaluate_focus = (\<lambda>fd. Inr (focus_data fd \<noteq> bad_focus)),
      compute_similarity = (\<lambda>a b. Inr sim),
      format_float = (\<lambda>r. ''?'')\<rparr>"

definition example_world :: world where
  "example_world =
     \<lparr>cwd = [''work''],
      dirs = [[''work'']],
      files = [(([''work''], ''j_asn.fits''), ''asn''), (([''work''], ''j_flt.fits''), ''flt'')]\<rparr>"

subsection \<open>Steps that stay in place\<close>

text \<open>
  A step stays in place when it changes neither the working directory nor the list of
  directories; it never returns when it cannot end with \<^verbatim>\<open>return\<close>.
\<close>

definition stays :: "('a, 'r) step \<Rightarrow> bool" where
  "stays m = (\<forall>w. cwd (snd (m w)) = cwd w \<and> dirs (snd (m w)) = dirs w)"

definition never_returns :: "('a, 'r) step \<Rightarrow> bool" where
  "never_returns m = (\<forall>w r. fst (m w) \<noteq> Return r)"

section \<open>Properties of \<^verbatim>\<open>isCountRate\<close>\<close>

lemma str_find_ge: "- 1 \<le> str_find sub s"
  by (induction s) (auto simp: Let_def)

lemma str_find_char: "(str_find [c] s \<noteq> -1) = (c \<in> set s)"
proof (induction s)
  case Nil
  then show ?case by simp
next
  case (Cons a s)
  have "- 1 \<le> str_find [c] s" by (rule str_find_ge)
  with Cons show ?case by (auto simp: Let_def)
qed

section \<open>Properties of \<^verbatim>\<open>buildMask\<close>\<close>

lemma buildMask_None_nth:
  "i < length dq \<Longrightarrow> j < length (dq ! i) \<Longrightarrow> buildMask dq None ! i ! j = Float64 1"
  by (simp add: buildMask_def)

lemma buildMask_Some_nth:
  "i < length dq \<Longrightarrow> j < length (dq ! i) \<Longrightarrow>
   buildMask dq (Some b) ! i ! j = UInt8 (if (dq ! i ! j OR b) > b then 0 else 1)"
  by (simp add: buildMask_def choose_1_0_def)

lemma buildMask_shape: "map length (buildMask dq bv) = map length dq"
  by (cases bv) (simp_all add: buildMask_def)

lemma or_eq_plus_and_not: "(d::int) OR b = b + (d AND NOT b)"
proof -
  have "b + (d AND NOT b) = b OR (d AND NOT b)"
    by (rule disjunctive_add_eq_or) (auto simp: bit_eq_iff bit_simps)
  also have "\<dots> = d OR b"
    by (auto simp: bit_eq_iff bit_simps)
  finally show ?thesis by simp
qed

lemma or_greater_iff:
  assumes "0 \<le> (d::int)"
  shows "((d OR b) > b) = (\<exists>n. bit d n \<and> \<not> bit b n)"
proof -
  have nn: "0 \<le> d AND NOT b" using assms by simp
  have "((d OR b) > b) = (0 < (d AND NOT b))"
    by (simp add: or_eq_plus_and_not)
  also have "\<dots> = (d AND NOT b \<noteq> 0)"
    using nn by linarith
  also have "\<dots> = (\<exists>n. bit (d AND NOT b) n)"
    by (auto simp: bit_eq_iff)
  also have "\<dots> = (\<exists>n. bit d n \<and> \<not> bit b n)"
    by (simp add: bit_simps)
  finally show ?thesis .
qed

text \<open>
  C5.  With no bit-selector the mask has the shape of the DQ array and every pixel is one;
  with a bit-selector \<open>bv\<close> the mask has the shape of the DQ array and the pixel at
  \<open>(i, j)\<close> is zero if and only if \<open>(dq[i][j] | bv) > bv\<close>.
\<close>

theorem buildMask_contract:
  "map length (buildMask dq None) = map length dq \<and>
   map length (buildMask dq (Some bv)) = map length dq \<and>
   (\<forall>i < length dq. \<forall>j < length (dq ! i).
      npval_num (buildMask dq None ! i ! j) = 1 \<and>
      ((npval_num (buildMask dq (Some bv) ! i ! j) = 0) = ((dq ! i ! j OR bv) > bv)))"
  by (simp add: buildMask_shape buildMask_None_nth buildMask_Some_nth)

theorem buildMask_contract_witness:
  "(1::nat) < length [[0, 4], [6, 1::int]] \<and> (0::nat) < length ([[0, 4], [6, 1::int]] ! 1) \<and>
   npval_num (buildMask [[0, 4], [6, 1]] None ! 1 ! 0) = 1 \<and>
   npval_num (buildMask [[0, 4], [6, 1]] (Some 4) ! 1 ! 0) = 0 \<and> ((6::int) OR 4) > 4"
  using buildMask_contract [of "[[0, 4], [6, 1]]" 4] by simp

text \<open>
  C6 as stated fails: the selector names the bits that are ignored, not the bits that
  exclude a pixel.  A pixel whose only DQ bit is the selected one keeps the value one, and
  a pixel that shares no bit with the selector is set to zero.
\<close>

theorem buildMask_shared_bit_counterexample:
  "npval_num (buildMask [[4]] (Some 4) ! 0 ! 0) = 1 \<and> (4::int) AND 4 \<noteq> 0 \<and>
   npval_num (buildMask [[2]] (Some 4) ! 0 ! 0) = 0 \<and> (2::int) AND 4 = 0"
  by (simp add: buildMask_def choose_1_0_def)

text \<open>
  C6, amended.  For a DQ array of non-negative values and a bit-selector \<open>bv\<close>, the mask
  has the shape of the DQ array, every pixel is zero or one, and a pixel is zero exactly
  when its DQ value has a bit set that is not set in the selector.
\<close>

theorem buildMask_unselected_bit:
  assumes "\<forall>row \<in> set dq. \<forall>d \<in> set row. 0 \<le> d"
  shows "map length (buildMask dq (Some bv)) = map length dq \<and>
   (\<forall>i < length dq. \<forall>j < length (dq ! i).
      (npval_num (buildMask dq (Some bv) ! i ! j) = 0 \<or>
       npval_num (buildMask dq (Some bv) ! i ! j) = 1) \<and>
      ((npval_num (buildMask dq (Some bv) ! i ! j) = 0) =
       (\<exists>n. bit (dq ! i ! j) n \<and> \<not> bit bv n)))"
proof (intro conjI allI impI)
  show "map length (buildMask dq (Some bv)) = map length dq"
    by (rule buildMask_shape)
next
  fix i j assume ij: "i < length dq" "j < length (dq ! i)"
  then show "npval_num (buildMask dq (Some bv) ! i ! j) = 0 \<or>
       npval_num (buildMask dq (Some bv) ! i ! j) = 1"
    by (simp add: buildMask_Some_nth)
next
  fix i j assume ij: "i < length dq" "j < length (dq ! i)"
  then have "0 \<le> dq ! i ! j"
    using assms by (meson nth_mem)
  then have "((dq ! i ! j OR bv) > bv) = (\<exists>n. bit (dq ! i ! j) n \<and> \<not> bit bv n)"
    by (rule or_greater_iff)
  with ij show "(npval_num (buildMask dq (Some bv) ! i ! j) = 0) =
       (\<exists>n. bit (dq ! i ! j) n \<and> \<not> bit bv n)"
    by (simp add: buildMask_Some_nth)
qed

theorem buildMask_unselected_bit_witness:
  "(0::int) \<le> 4 \<and> (0::int) \<le> 2 \<and>
   (0::nat) < length [[4, 2::int]] \<and> (1::nat) < length ([[4, 2::int]] ! 0) \<and>
   npval_num (buildMask [[4, 2]] (Some 4) ! 0 ! 1) = 0 \<and>
   (\<exists>n. bit ([[4, 2::int]] ! 0 ! 1) n \<and> \<not> bit (4::int) n)"
proof -
  have h: "\<forall>row \<in> set [[4, 2::int]]. \<forall>d \<in> set row. 0 \<le> d" by simp
  have v: "npval_num (buildMask [[4, 2]] (Some 4) ! 0 ! 1) = 0"
    by (simp add: buildMask_def choose_1_0_def)
  show ?thesis
    using h v buildMask_unselected_bit [OF h, of 4] by simp
qed

text \<open>
  C10 as stated fails: a header that holds both \<^verbatim>\<open>BUNIT\<close> and the misspelt \<^verbatim>\<open>BUINT\<close>, the
  latter with a slash in its value, makes \<^verbatim>\<open>isCountRate\<close> return \<^verbatim>\<open>True\<close> without a
  \<^verbatim>\<open>KeyError\<close>.
\<close>

theorem isCountRate_True_counterexample:
  "isCountRate [''BUNIT'' \<mapsto> CStr ''COUNTS/S'', ''BUINT'' \<mapsto> CStr ''COUNTS/S'']
     = Inr (Some True)"
  by (simp add: isCountRate_def)

text \<open>
  C10, amended.  \<^verbatim>\<open>isCountRate\<close> returns \<^verbatim>\<open>True\<close> only for a header that holds both
  \<^verbatim>\<open>BUNIT\<close> and \<^verbatim>\<open>BUINT\<close>, the latter a string with a slash; for every header that holds
  \<^verbatim>\<open>BUNIT\<close> but not \<^verbatim>\<open>BUINT\<close> it raises \<^verbatim>\<open>KeyError\<close> on \<^verbatim>\<open>BUINT\<close>; for every header
  without \<^verbatim>\<open>BUNIT\<close> it returns \<^verbatim>\<open>False\<close>; for a header that holds \<^verbatim>\<open>BUNIT\<close> and a
  string \<^verbatim>\<open>BUINT\<close> without a slash it falls through and returns \<^verbatim>\<open>None\<close>.
\<close>

theorem isCountRate_cases:
  "((isCountRate hdr = Inr (Some True)) =
      (''BUNIT'' \<in> dom hdr \<and> (\<exists>s. hdr ''BUINT'' = Some (CStr s) \<and> CHR ''/'' \<in> set s))) \<and>
   (''BUNIT'' \<in> dom hdr \<and> hdr ''BUINT'' = None \<longrightarrow> isCountRate hdr = Inl (KeyError ''BUINT'')) \<and>
   (''BUNIT'' \<notin> dom hdr \<longrightarrow> isCountRate hdr = Inr (Some False)) \<and>
   (''BUNIT'' \<in> dom hdr \<and> hdr ''BUINT'' = Some (CStr t) \<and> CHR ''/'' \<notin> set t
      \<longrightarrow> isCountRate hdr = Inr None)"
  using str_find_char [of "CHR ''/''"]
  by (auto simp: isCountRate_def split: option.splits card_value.splits)

theorem isCountRate_cases_witness:
  "(''BUNIT'' \<in> dom [''BUNIT'' \<mapsto> CStr ''COUNTS''] \<and>
      [''BUNIT'' \<mapsto> CStr ''COUNTS''] ''BUINT'' = None \<and>
      isCountRate [''BUNIT'' \<mapsto> CStr ''COUNTS''] = Inl (KeyError ''BUINT'')) \<and>
   (''BUNIT'' \<notin> dom (Map.empty :: header) \<and> isCountRate Map.empty = Inr (Some False)) \<and>
   (''BUNIT'' \<in> dom [''BUNIT'' \<mapsto> CStr ''COUNTS'', ''BUINT'' \<mapsto> CStr ''COUNTS''] \<and>
      [''BUNIT'' \<mapsto> CStr ''COUNTS'', ''BUINT'' \<mapsto> CStr ''COUNTS''] ''BUINT''
         = Some (CStr ''COUNTS'') \<and>
      CHR ''/'' \<notin> set ''COUNTS'' \<and>
      isCountRate [''BUNIT'' \<mapsto> CStr ''COUNTS'', ''BUINT'' \<mapsto> CStr ''COUNTS''] = Inr None)"
  using isCountRate_cases [of "[''BUNIT'' \<mapsto> CStr ''COUNTS'']"]
    isCountRate_cases [of "Map.empty"]
    isCountRate_cases [of "[''BUNIT'' \<mapsto> CStr ''COUNTS'', ''BUINT'' \<mapsto> CStr ''COUNTS'']" "''COUNTS''"]
  by simp

section \<open>Properties of the binned shadow mask\<close>

lemma clip_uint8_01: "clip_uint8 v = 0 \<or> clip_uint8 v = 1"
proof -
  have "\<lfloor>max 0 (min 1 v)\<rfloor> = 0 \<or> \<lfloor>max 0 (min 1 v)\<rfloor> = 1"
    by (cases "1 \<le> v") (auto simp: max_def min_def floor_eq_iff)
  then show ?thesis by (auto simp: clip_uint8_def)
qed

lemma word01_mult_eq_1:
  "(a = 0 \<or> a = 1) \<Longrightarrow> (b = 0 \<or> b = 1) \<Longrightarrow> ((a * b = (1 :: 8 word)) = (a = 1 \<and> b = 1))"
  by auto

lemma word01_mult_01:
  "(a = 0 \<or> a = 1) \<Longrightarrow> (b = 0 \<or> b = 1) \<Longrightarrow> (a * b = 0 \<or> a * b = (1 :: 8 word))"
  by auto

lemma unbinned_nth:
  assumes "i < 800" "j < 800"
  shows "arr_mult (map (map clip_uint8) (fromfunction fx (800, 800)))
                  (map (map clip_uint8) (fromfunction fy (800, 800))) ! i ! j
         = clip_uint8 (fx (real i) (real j)) * clip_uint8 (fy (real i) (real j))"
  using assms by (simp add: arr_mult_def fromfunction_def)

lemma unbinned_length:
  "length (arr_mult (map (map clip_uint8) (fromfunction fx (800, 800)))
                  (map (map clip_uint8) (fromfunction fy (800, 800)))) = 800"
  by (simp add: arr_mult_def fromfunction_def)

lemma unbinned_row_length:
  assumes "i < 800"
  shows "length (arr_mult (map (map clip_uint8) (fromfunction fx (800, 800)))
                  (map (map clip_uint8) (fromfunction fy (800, 800))) ! i) = 800"
  using assms by (simp add: arr_mult_def fromfunction_def)

lemma imul_view_even:
  assumes len: "length m = 2 * h" and rows: "\<forall>i < 2 * h. length (m ! i) = 2 * w"
    and off: "fst off \<le> 1" "snd off \<le> 1"
  shows "\<exists>m'. imul_view m off = Inr m' \<and> length m' = 2 * h \<and>
           (\<forall>i < 2 * h. length (m' ! i) = 2 * w \<and>
              (\<forall>j < 2 * w. m' ! i ! j =
                 (if even i \<and> even j then m ! i ! j * m ! (i + fst off) ! (j + snd off)
                  else m ! i ! j)))"
proof -
  have shape: "view_shape m (0, 0) = view_shape m off"
  proof (cases m)
    case Nil
    then show ?thesis using len by (simp add: view_shape_def)
  next
    case (Cons row rest)
    then have "0 < 2 * h" using len by auto
    then have "length (m ! 0) = 2 * w" using rows by blast
    then have "length row = 2 * w" using Cons by simp
    then show ?thesis using Cons len off
      by (auto simp: view_shape_def prod_eq_iff)
  qed
  show ?thesis
    using len rows by (simp add: imul_view_def shape)
qed


lemma binned_three_steps:
  assumes len: "length u = 2 * h" and rows: "\<forall>i < 2 * h. length (u ! i) = 2 * w"
  shows "\<exists>m1 m2 m3. imul_view u (1, 0) = Inr m1 \<and> imul_view m1 (0, 1) = Inr m2 \<and>
           imul_view m2 (1, 1) = Inr m3 \<and> length (view_copy m3) = h \<and>
           (\<forall>i < h. length (view_copy m3 ! i) = w \<and>
              (\<forall>j < w. view_copy m3 ! i ! j =
                 u ! (2 * i) ! (2 * j) * u ! (2 * i + 1) ! (2 * j) * u ! (2 * i) ! (2 * j + 1)
                   * u ! (2 * i + 1) ! (2 * j + 1)))"
proof -
  obtain m1 where m1: "imul_view u (1, 0) = Inr m1" "length m1 = 2 * h"
    and m1n: "\<forall>i < 2 * h. length (m1 ! i) = 2 * w \<and>
              (\<forall>j < 2 * w. m1 ! i ! j =
                 (if even i \<and> even j then u ! i ! j * u ! (i + 1) ! j else u ! i ! j))"
    using imul_view_even [OF len rows, of "(1, 0)"] by auto
  then have rows1: "\<forall>i < 2 * h. length (m1 ! i) = 2 * w" by blast
  obtain m2 where m2: "imul_view m1 (0, 1) = Inr m2" "length m2 = 2 * h"
    and m2n: "\<forall>i < 2 * h. length (m2 ! i) = 2 * w \<and>
              (\<forall>j < 2 * w. m2 ! i ! j =
                 (if even i \<and> even j then m1 ! i ! j * m1 ! i ! (j + 1) else m1 ! i ! j))"
    using imul_view_even [OF m1(2) rows1, of "(0, 1)"] by auto
  then have rows2: "\<forall>i < 2 * h. length (m2 ! i) = 2 * w" by blast
  obtain m3 where m3: "imul_view m2 (1, 1) = Inr m3" "length m3 = 2 * h"
    and m3n: "\<forall>i < 2 * h. length (m3 ! i) = 2 * w \<and>
              (\<forall>j < 2 * w. m3 ! i ! j =
                 (if even i \<and> even j then m2 ! i ! j * m2 ! (i + 1) ! (j + 1) else m2 ! i ! j))"
    using imul_view_even [OF m2(2) rows2, of "(1, 1)"] by auto
  have shape3: "view_shape m3 (0, 0) = (h, if h = 0 then 0 else w)"
  proof (cases m3)
    case Nil
    then show ?thesis using m3(2) by (simp add: view_shape_def)
  next
    case (Cons row rest)
    then have "0 < 2 * h" using m3(2) by auto
    then have "length (m3 ! 0) = 2 * w" using m3n by blast
    then show ?thesis using Cons m3(2) by (auto simp: view_shape_def)
  qed
  have lenc: "length (view_copy m3) = h"
    by (simp add: view_copy_def shape3)
  have elems: "length (view_copy m3 ! i) = w \<and>
              (\<forall>j < w. view_copy m3 ! i ! j =
                 u ! (2 * i) ! (2 * j) * u ! (2 * i + 1) ! (2 * j) * u ! (2 * i) ! (2 * j + 1)
                   * u ! (2 * i + 1) ! (2 * j + 1))" if i: "i < h" for i
  proof (intro conjI allI impI)
    show "length (view_copy m3 ! i) = w"
      using i by (simp add: view_copy_def shape3)
  next
    fix j assume j: "j < w"
    have i2: "2 * i < 2 * h" "2 * i + 1 < 2 * h" using i by auto
    have j2: "2 * j < 2 * w" "2 * j + 1 < 2 * w" using j by auto
    have a: "m1 ! (2 * i) ! (2 * j) = u ! (2 * i) ! (2 * j) * u ! (2 * i + 1) ! (2 * j)"
      using m1n i2 j2 by simp
    have b: "m1 ! (2 * i) ! (2 * j + 1) = u ! (2 * i) ! (2 * j + 1)"
      using m1n i2 j2 by simp
    have c: "m1 ! (2 * i + 1) ! (2 * j + 1) = u ! (2 * i + 1) ! (2 * j + 1)"
      using m1n i2 j2 by simp
    have d: "m2 ! (2 * i) ! (2 * j) = m1 ! (2 * i) ! (2 * j) * m1 ! (2 * i) ! (2 * j + 1)"
      using m2n i2 j2 by simp
    have e: "m2 ! (2 * i + 1) ! (2 * j + 1) = m1 ! (2 * i + 1) ! (2 * j + 1)"
      using m2n i2 j2 by simp
    have f: "m3 ! (2 * i) ! (2 * j) = m2 ! (2 * i) ! (2 * j) * m2 ! (2 * i + 1) ! (2 * j + 1)"
      using m3n i2 j2 by simp
    have "view_copy m3 ! i ! j = m3 ! (2 * i) ! (2 * j)"
      using i j by (simp add: view_copy_def shape3 view_get_def)
    also have "\<dots> = u ! (2 * i) ! (2 * j) * u ! (2 * i + 1) ! (2 * j) * u ! (2 * i) ! (2 * j + 1)
                   * u ! (2 * i + 1) ! (2 * j + 1)"
      by (simp only: a b c d e f)
    finally show "view_copy m3 ! i ! j =
                 u ! (2 * i) ! (2 * j) * u ! (2 * i + 1) ! (2 * j) * u ! (2 * i) ! (2 * j + 1)
                   * u ! (2 * i + 1) ! (2 * j + 1)" .
  qed
  show ?thesis
    using m1(1) m2(1) m3(1) lenc elems by blast
qed

text \<open>
  C8.  When binning is requested the template array has 400 rows of 400 pixels, half of
  the 800 by 800 of the unbinned array, and the pixel at \<open>(i, j)\<close> is one if and only if
  the four unbinned pixels at \<open>(2i, 2j)\<close>, \<open>(2i+1, 2j)\<close>, \<open>(2i, 2j+1)\<close> and
  \<open>(2i+1, 2j+1)\<close> are all one.  The three in-place products through the view change only
  the pixels at even rows and columns, which none of them reads as its second operand.
\<close>

theorem shadow_maskarr_binned:
  assumes "binned \<noteq> 1"
  shows "\<exists>u b. shadow_maskarr funcx funcy 1 = Inr u \<and> shadow_maskarr funcx funcy binned = Inr b \<and>
     length u = 800 \<and> (\<forall>i < 800. length (u ! i) = 800) \<and>
     length b = 400 \<and> (\<forall>i < 400. length (b ! i) = 400) \<and>
     (\<forall>i < 400. \<forall>j < 400.
        (b ! i ! j = 1) =
        (u ! (2 * i) ! (2 * j) = 1 \<and> u ! (2 * i + 1) ! (2 * j) = 1 \<and>
         u ! (2 * i) ! (2 * j + 1) = 1 \<and> u ! (2 * i + 1) ! (2 * j + 1) = 1))"
proof -
  define u where "u = arr_mult (map (map clip_uint8) (fromfunction funcx (800, 800)))
                  (map (map clip_uint8) (fromfunction funcy (800, 800)))"
  have len: "length u = 2 * 400" by (simp add: u_def unbinned_length)
  have rows: "\<forall>i < 2 * 400. length (u ! i) = 2 * 400"
    by (simp add: u_def unbinned_row_length)
  have u01: "u ! i ! j = 0 \<or> u ! i ! j = 1" if "i < 800" "j < 800" for i j
    unfolding u_def unbinned_nth [OF that]
    by (rule word01_mult_01) (rule clip_uint8_01)+
  obtain m1 m2 m3 where steps: "imul_view u (1, 0) = Inr m1" "imul_view m1 (0, 1) = Inr m2"
      "imul_view m2 (1, 1) = Inr m3" "length (view_copy m3) = 400"
    and elems: "\<forall>i < 400. length (view_copy m3 ! i) = 400 \<and>
              (\<forall>j < 400. view_copy m3 ! i ! j =
                 u ! (2 * i) ! (2 * j) * u ! (2 * i + 1) ! (2 * j) * u ! (2 * i) ! (2 * j + 1)
                   * u ! (2 * i + 1) ! (2 * j + 1))"
    using binned_three_steps [OF len rows] by blast
  have unb: "shadow_maskarr funcx funcy 1 = Inr u"
    by (simp add: shadow_maskarr_def u_def)
  have bin: "shadow_maskarr funcx funcy binned = Inr (view_copy m3)"
    using assms steps(1-3) by (simp add: shadow_maskarr_def u_def [symmetric])
  have px: "(view_copy m3 ! i ! j = 1) =
        (u ! (2 * i) ! (2 * j) = 1 \<and> u ! (2 * i + 1) ! (2 * j) = 1 \<and>
         u ! (2 * i) ! (2 * j + 1) = 1 \<and> u ! (2 * i + 1) ! (2 * j + 1) = 1)"
    if ij: "i < 400" "j < 400" for i j
  proof -
    have r: "2 * i < 800" "2 * i + 1 < 800" "2 * j < 800" "2 * j + 1 < 800" using ij by auto
    have v: "view_copy m3 ! i ! j =
                 u ! (2 * i) ! (2 * j) * u ! (2 * i + 1) ! (2 * j) * u ! (2 * i) ! (2 * j + 1)
                   * u ! (2 * i + 1) ! (2 * j + 1)"
      using elems ij by blast
    show ?thesis
      unfolding v
      using u01 [OF r(1) r(3)] u01 [OF r(2) r(3)] u01 [OF r(1) r(4)] u01 [OF r(2) r(4)]
      by auto
  qed
  show ?thesis
    using unb bin len rows steps(4) elems px by (intro exI [of _ u] exI [of _ "view_copy m3"]) simp
qed

theorem shadow_maskarr_binned_witness:
  "(2::int) \<noteq> 1 \<and>
   (\<exists>u b. shadow_maskarr (\<lambda>x y. 1) (\<lambda>x y. 1) 1 = Inr u \<and>
          shadow_maskarr (\<lambda>x y. 1) (\<lambda>x y. 1) 2 = Inr b \<and> length u = 800 \<and> length b = 400 \<and>
          (3::nat) < 400 \<and> (5::nat) < 400 \<and>
          (b ! 3 ! 5 = 1) =
          (u ! (2 * 3) ! (2 * 5) = 1 \<and> u ! (2 * 3 + 1) ! (2 * 5) = 1 \<and>
           u ! (2 * 3) ! (2 * 5 + 1) = 1 \<and> u ! (2 * 3 + 1) ! (2 * 5 + 1) = 1))"
proof -
  have h: "(2::int) \<noteq> 1" by simp
  from shadow_maskarr_binned [OF h, of "\<lambda>x y. 1" "\<lambda>x y. 1"]
  obtain u b where "shadow_maskarr (\<lambda>x y. 1) (\<lambda>x y. 1) 1 = Inr u"
      "shadow_maskarr (\<lambda>x y. 1) (\<lambda>x y. 1) 2 = Inr b" "length u = 800" "length b = 400"
      "\<forall>i < 400. \<forall>j < 400.
        (b ! i ! j = 1) =
        (u ! (2 * i) ! (2 * j) = 1 \<and> u ! (2 * i + 1) ! (2 * j) = 1 \<and>
         u ! (2 * i) ! (2 * j + 1) = 1 \<and> u ! (2 * i + 1) ! (2 * j + 1) = 1)"
    by blast
  then show ?thesis by (intro conjI h exI [of _ u] exI [of _ b]) simp_all
qed

section \<open>Properties of the mask files\<close>

text \<open>
  In \<^verbatim>\<open>buildMaskImage\<close> a failed write is caught: the incomplete file is removed, the
  warning names the input and the result is \<^verbatim>\<open>None\<close>.
\<close>

lemma buildMaskImage_failed_write:
  "buildMaskImage FailedPartial ''u.fits'' (Some 0) ''m.fits'' ''DQ'' 1
     \<lparr>mfiles = [''u.fits'' \<mapsto> Image [\<lparr>extname = ''DQ'', extver = 1, data = Some [[0]]\<rparr>]],
      mout = []\<rparr>
   = (Inr None,
      \<lparr>mfiles = [''u.fits'' \<mapsto> Image [\<lparr>extname = ''DQ'', extver = 1, data = Some [[0]]\<rparr>]],
       mout = [newline @ ''Warning: Problem creating MASK file for u.fits.'' @ newline]\<rparr>)"
  by (simp add: buildMaskImage_def findFile_def removeFile_def openImage_def
      buildMaskImage_try_def write_mask_def Let_def print_line_def)

text \<open>
  C7 fails in \<^verbatim>\<open>buildShadowMaskImage\<close>.  With the DQ file present and a bit value given, a
  write of the mask that fails half-way is caught and the incomplete file is removed, but
  the handler then reads the undefined name \<^verbatim>\<open>rootname\<close>: the call ends with
  \<^verbatim>\<open>NameError\<close>, nothing is printed and nothing is returned.
\<close>

theorem buildShadowMaskImage_handler_raises:
  "buildShadowMaskImage (\<lambda>_. FailedPartial) ''u.c1h'' ''1'' 0 ''m.fits'' (Some 0) 1
     \<lparr>mfiles = [''u.c1h'' \<mapsto> Image [\<lparr>extname = ''DQ'', extver = 1, data = Some [[0]]\<rparr>]],
      mout = []\<rparr>
   = (Inl (NameError ''rootname''),
      \<lparr>mfiles = [''u.c1h'' \<mapsto> Image [\<lparr>extname = ''DQ'', extver = 1, data = Some [[0]]\<rparr>]],
       mout = []\<rparr>)"
  by (simp add: buildShadowMaskImage_def findFile_def removeFile_def openImage_def
      shadow_dqmask_try_def py_index_def write_mask_def Let_def)

theorem buildShadowMaskImage_handler_raises_witness:
  "fst (buildShadowMaskImage (\<lambda>_. FailedPartial) ''u.c1h'' ''1'' 0 ''m.fits'' (Some 0) 1
     \<lparr>mfiles = [''u.c1h'' \<mapsto> Image [\<lparr>extname = ''DQ'', extver = 1, data = Some [[0]]\<rparr>]],
      mout = []\<rparr>) = Inl (NameError ''rootname'') \<and>
   mout (snd (buildShadowMaskImage (\<lambda>_. FailedPartial) ''u.c1h'' ''1'' 0 ''m.fits'' (Some 0) 1
     \<lparr>mfiles = [''u.c1h'' \<mapsto> Image [\<lparr>extname = ''DQ'', extver = 1, data = Some [[0]]\<rparr>]],
      mout = []\<rparr>)) = []"
  using buildShadowMaskImage_handler_raises by simp

end
